theory Spec2Isabelle
  imports Complex_Main
begin

section \<open>Values of the host language\<close>

text \<open>
  The service handles untyped data (\<^verbatim>\<open>any\<close>): the result of \<^verbatim>\<open>JSON.parse\<close>, the
  payload of a tool call, the optional \<^verbatim>\<open>mcpTools\<close> argument. Such a value is a
  \<open>jsval\<close>: a JSON value, or \<^verbatim>\<open>undefined\<close> (a missing property, an omitted
  argument). An object is the list of its own properties in order; a property read
  takes the first entry of that name.

  A number is kept as its decimal rendering, the text that \<^verbatim>\<open>String(n)\<close> gives
  (\<open>''0''\<close> for both zeros, \<open>''NaN''\<close>): the service only tests numbers for
  truthiness and interpolates them into text, and the rendering decides both.
\<close>

datatype jsval =
    JUndefined
  | JNull
  | JBool bool
  | JNum string
  | JStr string
  | JArr "jsval list"
  | JObj "(string \<times> jsval) list"

text \<open>What the service can throw or receive as a failure.\<close>

datatype error =
    Error string                \<comment> \<open>\<^verbatim>\<open>new Error(message)\<close>\<close>
  | TypeError                   \<comment> \<open>a property read on \<^verbatim>\<open>null\<close>/\<^verbatim>\<open>undefined\<close>, a call of a non-function\<close>
  | SyntaxError                 \<comment> \<open>thrown by \<^verbatim>\<open>JSON.parse\<close>\<close>
  | HttpErrorResponse nat       \<comment> \<open>a failed request, with its status\<close>

text \<open>Sequencing of computations that may throw: the first failure wins.\<close>

definition then_do :: "error + 'a \<Rightarrow> ('a \<Rightarrow> error + 'b) \<Rightarrow> error + 'b" where
  "then_do r f = (case r of Inl e \<Rightarrow> Inl e | Inr x \<Rightarrow> f x)"

fun map_throw :: "('a \<Rightarrow> error + 'b) \<Rightarrow> 'a list \<Rightarrow> error + 'b list" where
  "map_throw f [] = Inr []"
| "map_throw f (x # xs) =
     (case f x of
        Inl e \<Rightarrow> Inl e
      | Inr y \<Rightarrow> (case map_throw f xs of Inl e \<Rightarrow> Inl e | Inr ys \<Rightarrow> Inr (y # ys)))"

text \<open>Truthiness, as \<^verbatim>\<open>if (v)\<close>, \<^verbatim>\<open>v && w\<close> and \<^verbatim>\<open>v || w\<close> test it.\<close>

fun truthy :: "jsval \<Rightarrow> bool" where
  "truthy JUndefined = False"
| "truthy JNull = False"
| "truthy (JBool b) = b"
| "truthy (JNum s) = (s \<noteq> ''0'' \<and> s \<noteq> ''NaN'')"
| "truthy (JStr s) = (s \<noteq> [])"
| "truthy (JArr xs) = True"
| "truthy (JObj kvs) = True"

fun nullish :: "jsval \<Rightarrow> bool" where
  "nullish JUndefined = True"
| "nullish JNull = True"
| "nullish v = False"

fun isArray :: "jsval \<Rightarrow> bool" where
  "isArray (JArr xs) = True"
| "isArray v = False"

fun elems :: "jsval \<Rightarrow> jsval list" where
  "elems (JArr xs) = xs"
| "elems v = []"

text \<open>\<^verbatim>\<open>typeof v === 'object'\<close>: objects, arrays and \<^verbatim>\<open>null\<close>.\<close>

fun typeof_object :: "jsval \<Rightarrow> bool" where
  "typeof_object JNull = True"
| "typeof_object (JArr xs) = True"
| "typeof_object (JObj kvs) = True"
| "typeof_object v = False"

text \<open>
  A property read \<^verbatim>\<open>v.k\<close>, for the names the service reads as data (\<^verbatim>\<open>error\<close>,
  \<^verbatim>\<open>result\<close>, \<^verbatim>\<open>message\<close>, \<^verbatim>\<open>content\<close>, \<^verbatim>\<open>text\<close>, \<^verbatim>\<open>companies\<close>, \<^verbatim>\<open>chats\<close>,
  \<^verbatim>\<open>llms\<close>, \<^verbatim>\<open>company\<close>, \<^verbatim>\<open>description\<close>, \<^verbatim>\<open>chatbot\<close>, \<^verbatim>\<open>llm\<close>,
  \<^verbatim>\<open>specialization\<close>, \<^verbatim>\<open>tools\<close>, \<^verbatim>\<open>name\<close>): no built-in prototype defines one
  of them, so only an object can hold it, and any other value that is not
  \<^verbatim>\<open>null\<close>/\<^verbatim>\<open>undefined\<close> reads as \<^verbatim>\<open>undefined\<close>. The reads of \<^verbatim>\<open>length\<close>
  and \<^verbatim>\<open>map\<close> are modelled apart, below.

  \<open>read\<close> is the read where the source guards it (\<^verbatim>\<open>v && v.k\<close>);
  \<open>get_prop\<close> is the unguarded read, which throws on \<^verbatim>\<open>null\<close> and
  \<^verbatim>\<open>undefined\<close>.
\<close>

fun read :: "jsval \<Rightarrow> string \<Rightarrow> jsval" where
  "read (JObj kvs) k = (case map_of kvs k of None \<Rightarrow> JUndefined | Some v \<Rightarrow> v)"
| "read v k = JUndefined"

definition get_prop :: "jsval \<Rightarrow> string \<Rightarrow> error + jsval" where
  "get_prop v k = (if nullish v then Inl TypeError else Inr (read v k))"

text \<open>\<^verbatim>\<open>xs[0]\<close> on an array: the first element, \<^verbatim>\<open>undefined\<close> when there is none.\<close>

fun first_elem :: "jsval list \<Rightarrow> jsval" where
  "first_elem [] = JUndefined"
| "first_elem (x # xs) = x"

text \<open>\<^verbatim>\<open>Array.prototype.join\<close> on strings.\<close>

fun join :: "string \<Rightarrow> string list \<Rightarrow> string" where
  "join sep [] = []"
| "join sep [x] = x"
| "join sep (x # y # ys) = x @ sep @ join sep (y # ys)"

text \<open>
  String conversion, as a template literal and \<^verbatim>\<open>JSON.parse\<close> apply it to their
  argument. An array is the join of its elements with a comma, where \<^verbatim>\<open>null\<close>
  and \<^verbatim>\<open>undefined\<close> elements are empty.
\<close>

fun to_string :: "jsval \<Rightarrow> string" where
  "to_string JUndefined = ''undefined''"
| "to_string JNull = ''null''"
| "to_string (JBool b) = (if b then ''true'' else ''false'')"
| "to_string (JNum s) = s"
| "to_string (JStr s) = s"
| "to_string (JArr xs) = join '','' (map (\<lambda>x. if nullish x then [] else to_string x) xs)"
| "to_string (JObj kvs) = ''[object Object]''"

text \<open>
  The conversion can throw. An object is converted by its \<^verbatim>\<open>toString\<close>, which is the
  built-in one unless the object has an own property of that name; such a property of
  a JSON value is never a function, the conversion then falls to \<^verbatim>\<open>valueOf\<close>, which
  gives no primitive, and a \<^verbatim>\<open>TypeError\<close> is thrown. An array throws when one of its
  elements does.
\<close>

fun convertible :: "jsval \<Rightarrow> bool" where
  "convertible (JObj kvs) = (map_of kvs ''toString'' = None)"
| "convertible (JArr xs) = list_all (\<lambda>x. nullish x \<or> convertible x) xs"
| "convertible v = True"

definition as_string :: "jsval \<Rightarrow> error + string" where
  "as_string v = (if convertible v then Inr (to_string v) else Inl TypeError)"

text \<open>\<^verbatim>\<open>xs.join(sep)\<close> on an array of arbitrary values.\<close>

definition array_join :: "string \<Rightarrow> jsval list \<Rightarrow> error + string" where
  "array_join sep xs =
     (if list_all (\<lambda>x. nullish x \<or> convertible x) xs
      then Inr (join sep (map (\<lambda>x. if nullish x then [] else to_string x) xs))
      else Inl TypeError)"

text \<open>
  \<^verbatim>\<open>v.length > 0\<close>, which the source only asks of a truthy value. For an array or
  a string it asks whether it is non-empty. A number or a boolean has no \<^verbatim>\<open>length\<close>,
  and \<^verbatim>\<open>undefined > 0\<close> is false. An object may hold an own \<^verbatim>\<open>length\<close> of any
  kind; the comparison then converts it to a number, which is the host's business:
  \<open>gt0 w\<close> stands for the host's \<^verbatim>\<open>w > 0\<close> being true, or throwing (the conversion
  of an object can throw a \<^verbatim>\<open>TypeError\<close>). The two need not be told apart: after a true
  comparison the source calls the \<^verbatim>\<open>map\<close> of the object, which is no function, and
  that throws a \<^verbatim>\<open>TypeError\<close> too.
\<close>

fun length_gt_0 :: "(jsval \<Rightarrow> bool) \<Rightarrow> jsval \<Rightarrow> bool" where
  "length_gt_0 gt0 (JArr xs) = (xs \<noteq> [])"
| "length_gt_0 gt0 (JStr s) = (s \<noteq> [])"
| "length_gt_0 gt0 (JObj kvs) =
     (case map_of kvs ''length'' of None \<Rightarrow> False | Some w \<Rightarrow> gt0 w)"
| "length_gt_0 gt0 v = False"

section \<open>Text of a response body\<close>

text \<open>\<^verbatim>\<open>s.split('\n')\<close>: the pieces between line feeds, at least one.\<close>

fun split_lines :: "string \<Rightarrow> string list" where
  "split_lines [] = [[]]"
| "split_lines (c # cs) =
     (if c = CHR 0x0A then [] # split_lines cs
      else (case split_lines cs of
              [] \<Rightarrow> [[c]]
            | l # ls \<Rightarrow> (c # l) # ls))"

definition startsWith :: "string \<Rightarrow> string \<Rightarrow> bool" where
  "startsWith line p = (take (length p) line = p)"

section \<open>The event-stream frame of an MCP response\<close>

text \<open>
  The callback that \<^verbatim>\<open>callMCPMethod\<close> and \<^verbatim>\<open>initializeMCP\<close> map over the
  response text; the two differ only in the prefix of the error message, here
  \<open>label\<close>. \<^verbatim>\<open>JSON.parse\<close> belongs to the host and is a parameter: \<open>parse s\<close>
  is \<open>None\<close> where it throws.
\<close>

definition sse_result ::
  "(string \<Rightarrow> jsval option) \<Rightarrow> string \<Rightarrow> string \<Rightarrow> error + jsval" where
  "sse_result parse label response =
     (let lines = split_lines response;
          dataLine = find (\<lambda>line. startsWith line ''data: '') lines
      in case dataLine of
           None \<Rightarrow> Inl (Error ''Invalid SSE response format'')
         | Some l \<Rightarrow>
             if l = [] then Inl (Error ''Invalid SSE response format'')
             else
               (let jsonData = drop 6 l
                in case parse jsonData of
                     None \<Rightarrow> Inl SyntaxError
                   | Some parsedData \<Rightarrow>
                       then_do (get_prop parsedData ''error'') (\<lambda>err.
                         if truthy err
                         then then_do (get_prop err ''message'') (\<lambda>m.
                              then_do (as_string m) (\<lambda>text.
                                Inl (Error (label @ text))))
                         else get_prop parsedData ''result'')))"

section \<open>Rendering the company data\<close>

text \<open>
  \<^verbatim>\<open>createContext\<close>, first half: the list of records in the payload. \<open>None\<close> is
  the \<^verbatim>\<open>catch\<close> branch, which leaves the function with the text
  \<^verbatim>\<open>'Error parsing company data.'\<close>; it catches the failure of \<^verbatim>\<open>JSON.parse\<close>, of
  the conversion of its argument to a string, and of the read of \<^verbatim>\<open>companies\<close> on a
  parsed \<^verbatim>\<open>null\<close> alike.
\<close>

definition companiesArray :: "(string \<Rightarrow> jsval option) \<Rightarrow> jsval \<Rightarrow> jsval list option" where
  "companiesArray parse companies =
     (if truthy companies \<and> truthy (read companies ''content'')
         \<and> isArray (read companies ''content'')
      then
        (let contentData = first_elem (elems (read companies ''content''))
         in if truthy contentData \<and> truthy (read contentData ''text'')
            then
              (case as_string (read contentData ''text'') of
                 Inl e \<Rightarrow> None
               | Inr text \<Rightarrow>
                   (case parse text of
                      None \<Rightarrow> None
                    | Some parsedData \<Rightarrow>
                        if isArray parsedData then Some (elems parsedData)
                        else if nullish parsedData then None
                        else if truthy (read parsedData ''companies'')
                                \<and> isArray (read parsedData ''companies'')
                        then Some (elems (read parsedData ''companies''))
                        else Some [parsedData]))
            else if isArray contentData then Some (elems contentData)
            else Some [contentData])
      else if isArray companies then Some (elems companies)
      else if truthy companies \<and> truthy (read companies ''companies'')
              \<and> isArray (read companies ''companies'')
      then Some (elems (read companies ''companies''))
      else if truthy companies \<and> typeof_object companies then Some [companies]
      else Some [])"

text \<open>
  \<^verbatim>\<open>xs?.map(f)\<close> followed by \<^verbatim>\<open>.join(', ') || 'None'\<close>: nothing to map when the value
  is \<^verbatim>\<open>null\<close> or \<^verbatim>\<open>undefined\<close>; only an array has a \<^verbatim>\<open>map\<close> to call; an empty
  text is replaced.
\<close>

definition joined_or_None :: "(jsval \<Rightarrow> error + jsval) \<Rightarrow> jsval \<Rightarrow> error + string" where
  "joined_or_None f v =
     (if nullish v then Inr ''None''
      else case v of
             JArr xs \<Rightarrow>
               then_do (map_throw f xs) (\<lambda>ys.
               then_do (array_join '', '' ys) (\<lambda>s.
                 Inr (if s = [] then ''None'' else s)))
           | _ \<Rightarrow> Inl TypeError)"

definition chats_text :: "jsval \<Rightarrow> error + string" where
  "chats_text company =
     then_do (get_prop company ''chats'')
       (joined_or_None (\<lambda>chat. get_prop chat ''chatbot''))"

definition llms_text :: "jsval \<Rightarrow> error + string" where
  "llms_text company =
     then_do (get_prop company ''llms'')
       (joined_or_None (\<lambda>llm.
          then_do (get_prop llm ''llm'') (\<lambda>n.
          then_do (as_string n) (\<lambda>name.
          then_do (get_prop llm ''specialization'') (\<lambda>s.
          then_do (as_string s) (\<lambda>specialization.
            Inr (JStr (name @ '' ('' @ specialization @ '')''))))))))"

text \<open>The block of one record.\<close>

definition company_block :: "jsval \<Rightarrow> error + string" where
  "company_block company =
     then_do (chats_text company) (\<lambda>chats.
     then_do (llms_text company) (\<lambda>llms.
     then_do (as_string (read company ''company'')) (\<lambda>name.
     then_do (as_string (read company ''description'')) (\<lambda>description.
       Inr (''Company: '' @ name @ ''\<newline>''
            @ ''Description: '' @ description @ ''\<newline>''
            @ ''Chatbots: '' @ chats @ ''\<newline>''
            @ ''LLM Models: '' @ llms)))))"

definition createContext :: "(string \<Rightarrow> jsval option) \<Rightarrow> jsval \<Rightarrow> error + string" where
  "createContext parse companies =
     (case companiesArray parse companies of
        None \<Rightarrow> Inr ''Error parsing company data.''
      | Some arr \<Rightarrow>
          if arr = [] then Inr ''No company data available.''
          else then_do (map_throw company_block arr) (\<lambda>blocks.
                 Inr (join ''\<newline>\<newline>'' blocks)))"

section \<open>Conversations\<close>

datatype role = System | User | Assistant

record OpenAIMessage =
  role :: role
  content :: string

text \<open>\<^verbatim>\<open>messages.filter((m) => m.role !== 'system')\<close>\<close>

definition without_system :: "OpenAIMessage list \<Rightarrow> OpenAIMessage list" where
  "without_system messages = filter (\<lambda>m. role m \<noteq> System) messages"

section \<open>The context composer\<close>

text \<open>The system prompt of the rich tier, around the rendered company data.\<close>

definition systemPrompt :: "string \<Rightarrow> string" where
  \<open>systemPrompt context =
     ''You are an AI assistant that helps users find information about AI companies and their products.\<newline>''
     @ ''\<newline>''
     @ ''You have access to the following data about AI companies:\<newline>''
     @ context @ ''\<newline>''
     @ ''\<newline>''
     @ ''When users ask questions, use this data to provide accurate and helpful responses. If the question is about a specific company, you can also suggest using the MCP tools to get more detailed information about their chatbots or LLM models.\<newline>''
     @ ''\<newline>''
     @ ''Available MCP tools:\<newline>''
     @ ''- getCompanies: Get all companies with their chats and LLMs\<newline>''
     @ ''- getChats(companyName): Get chatbots for a specific company\<newline>''
     @ ''- getLLMs(companyName): Get LLM models for a specific company\<newline>''
     @ ''\<newline>''
     @ ''Be helpful, accurate, and suggest relevant companies or products based on the user's question.''\<close>

text \<open>
  The callback mapped over the result of \<^verbatim>\<open>getCompanies\<close>. It throws what
  \<^verbatim>\<open>createContext\<close> throws.
\<close>

definition rich_tier ::
  "(string \<Rightarrow> jsval option) \<Rightarrow> OpenAIMessage list \<Rightarrow> jsval \<Rightarrow> error + OpenAIMessage list" where
  "rich_tier parse messages companies =
     then_do (createContext parse companies) (\<lambda>context.
       let systemMessage = \<lparr>role = System, content = systemPrompt context\<rparr>
       in Inr (systemMessage # without_system messages))"

text \<open>One line of the tool list: \<^verbatim>\<open>`- ${tool.name}: ${tool.description || '...'}`\<close>.\<close>

definition tool_line :: "jsval \<Rightarrow> error + string" where
  "tool_line tool =
     then_do (get_prop tool ''name'') (\<lambda>name.
     then_do (as_string name) (\<lambda>name_text.
     then_do (get_prop tool ''description'') (\<lambda>description.
     then_do (if truthy description then as_string description
              else Inr ''No description available'') (\<lambda>description_text.
       Inr (''- '' @ name_text @ '': '' @ description_text)))))"

text \<open>\<^verbatim>\<open>mcpTools.tools.map(...).join('\n')\<close>: only an array has a \<^verbatim>\<open>map\<close> to call.\<close>

definition toolsDescription :: "jsval \<Rightarrow> error + string" where
  "toolsDescription tools =
     (case tools of
        JArr ts \<Rightarrow> then_do (map_throw tool_line ts) (\<lambda>ls. Inr (join ''\<newline>'' ls))
      | _ \<Rightarrow> Inl TypeError)"

definition toolsPrompt :: "string \<Rightarrow> string" where
  \<open>toolsPrompt description =
     ''You are an AI assistant with access to the following MCP (Model Context Protocol) tools:\<newline>\<newline>''
     @ description
     @ ''\<newline>\<newline>When a user asks about topics that could be answered using these tools, explain what information you could provide if you had access to call these tools. For example, if asked about "AI companies", mention that you have access to tools that could provide that information.''\<close>

text \<open>The test \<^verbatim>\<open>mcpTools && mcpTools.tools && mcpTools.tools.length > 0\<close>.\<close>

definition has_tools :: "(jsval \<Rightarrow> bool) \<Rightarrow> jsval \<Rightarrow> bool" where
  "has_tools gt0 mcpTools =
     (truthy mcpTools \<and> truthy (read mcpTools ''tools'')
      \<and> length_gt_0 gt0 (read mcpTools ''tools''))"

text \<open>
  The \<^verbatim>\<open>catchError\<close> callback. \<^verbatim>\<open>messages\<close> is an array by its type, so
  \<^verbatim>\<open>Array.isArray(messages) ? messages : [messages]\<close> is \<^verbatim>\<open>messages\<close>.
\<close>

definition fallback ::
  "(jsval \<Rightarrow> bool) \<Rightarrow> OpenAIMessage list \<Rightarrow> jsval \<Rightarrow> error + OpenAIMessage list" where
  "fallback gt0 messages mcpTools =
     (if has_tools gt0 mcpTools
      then then_do (toolsDescription (read mcpTools ''tools'')) (\<lambda>description.
             let systemMessage = \<lparr>role = System, content = toolsPrompt description\<rparr>
             in Inr (systemMessage # without_system messages))
      else Inr messages)"

text \<open>
  The conversation that \<^verbatim>\<open>sendMessageWithMCPContext\<close> hands to \<^verbatim>\<open>sendMessage\<close>,
  from the outcome of \<^verbatim>\<open>getCompanies\<close>: \<^verbatim>\<open>map\<close> runs on a result, and
  \<^verbatim>\<open>catchError\<close> takes over when the call failed or the mapped callback threw.
\<close>

definition enhancedMessages ::
  "(string \<Rightarrow> jsval option) \<Rightarrow> (jsval \<Rightarrow> bool) \<Rightarrow> error + jsval
     \<Rightarrow> OpenAIMessage list \<Rightarrow> jsval \<Rightarrow> error + OpenAIMessage list" where
  "enhancedMessages parse gt0 companies messages mcpTools =
     (case then_do companies (rich_tier parse messages) of
        Inr enhanced \<Rightarrow> Inr enhanced
      | Inl e \<Rightarrow> fallback gt0 messages mcpTools)"

section \<open>The service and its requests\<close>

record completion_body =
  model :: string
  messages :: "OpenAIMessage list"
  max_tokens :: nat
  temperature :: rat

record completion_message =
  message_content :: string
  message_role :: string

record completion_choice =
  message :: completion_message

record OpenAIResponse =
  choices :: "completion_choice list"

record rpc_request =
  jsonrpc :: string
  id :: int
  rpc_method :: string
  params :: jsval

text \<open>A request that went out: the URL, the headers and the body.\<close>

datatype http_call =
    OpenAI_post string "(string \<times> string) list" completion_body
  | MCP_post string "(string \<times> string) list" rpc_request

text \<open>
  What the service depends on: the configured credential, the clock, the host's
  \<^verbatim>\<open>JSON.parse\<close> and \<^verbatim>\<open>> 0\<close>, and the answers of the two remote endpoints (a
  response, or the failure of the request).
\<close>

record service =
  getApiKey :: string
  Date_now :: int
  JSON_parse :: "string \<Rightarrow> jsval option"
  greater_0 :: "jsval \<Rightarrow> bool"
  openai_answer :: "completion_body \<Rightarrow> error + OpenAIResponse"
  mcp_answer :: "rpc_request \<Rightarrow> error + string"

definition openaiApiUrl :: string where
  "openaiApiUrl = ''https://api.openai.com/v1/chat/completions''"

text \<open>
  Every operation takes the list of requests sent so far and returns it with its own
  requests appended. An array of the declared response type is always truthy, so
  \<^verbatim>\<open>response.choices && response.choices.length > 0\<close> asks whether it is non-empty.
\<close>

definition sendMessage ::
  "service \<Rightarrow> OpenAIMessage list \<Rightarrow> http_call list \<Rightarrow> (error + string) \<times> http_call list" where
  "sendMessage svc msgs sent =
     (let apiKey = getApiKey svc
      in if apiKey = [] then (Inl (Error ''OpenAI API key not set''), sent)
         else
           (let headers = [(''Content-Type'', ''application/json''),
                           (''Accept'', ''application/json, text/event-stream''),
                           (''Authorization'', ''Bearer '' @ apiKey)];
                body = \<lparr>model = ''gpt-3.5-turbo'', messages = msgs,
                        max_tokens = 1000, temperature = 0.7\<rparr>
            in (case openai_answer svc body of
                  Inl e \<Rightarrow> Inl e
                | Inr response \<Rightarrow>
                    (case choices response of
                       [] \<Rightarrow> Inl (Error ''No response from OpenAI'')
                     | c # cs \<Rightarrow> Inr (message_content (message c))),
                sent @ [OpenAI_post openaiApiUrl headers body])))"

text \<open>\<^verbatim>\<open>params || {}\<close>\<close>

definition or_empty :: "jsval \<Rightarrow> jsval" where
  "or_empty v = (if truthy v then v else JObj [])"

definition mcpHeaders :: "(string \<times> string) list" where
  "mcpHeaders = [(''Accept'', ''application/json, text/event-stream''),
                 (''Content-Type'', ''application/json'')]"

definition jsonRpcRequest :: "service \<Rightarrow> string \<Rightarrow> jsval \<Rightarrow> rpc_request" where
  "jsonRpcRequest svc meth ps =
     \<lparr>jsonrpc = ''2.0'', id = Date_now svc, rpc_method = meth, params = or_empty ps\<rparr>"

definition callMCPMethod ::
  "service \<Rightarrow> string \<Rightarrow> jsval \<Rightarrow> http_call list \<Rightarrow> (error + jsval) \<times> http_call list" where
  "callMCPMethod svc meth ps sent =
     (case mcp_answer svc (jsonRpcRequest svc meth ps) of
        Inl e \<Rightarrow> Inl e
      | Inr response \<Rightarrow> sse_result (JSON_parse svc) ''MCP Error: '' response,
      sent @ [MCP_post ''/api/mcp'' mcpHeaders (jsonRpcRequest svc meth ps)])"

definition initRequest :: rpc_request where
  "initRequest =
     \<lparr>jsonrpc = ''2.0'', id = 1, rpc_method = ''initialize'',
      params = JObj [(''protocolVersion'', JStr ''2024-11-05''),
                     (''capabilities'', JObj []),
                     (''clientInfo'', JObj [(''name'', JStr ''angular-mcp-client''),
                                            (''version'', JStr ''1.0.0'')])]\<rparr>"

definition initializeMCP :: "service \<Rightarrow> http_call list \<Rightarrow> (error + jsval) \<times> http_call list" where
  "initializeMCP svc sent =
     (case mcp_answer svc initRequest of
        Inl e \<Rightarrow> Inl e
      | Inr response \<Rightarrow> sse_result (JSON_parse svc) ''MCP Initialization Error: '' response,
      sent @ [MCP_post ''/api/mcp'' mcpHeaders initRequest])"

definition callMCPTool ::
  "service \<Rightarrow> string \<Rightarrow> jsval \<Rightarrow> http_call list \<Rightarrow> (error + jsval) \<times> http_call list" where
  "callMCPTool svc toolName ps sent =
     callMCPMethod svc ''tools/call''
       (JObj [(''name'', JStr toolName), (''arguments'', or_empty ps)]) sent"

definition getCompanies :: "service \<Rightarrow> http_call list \<Rightarrow> (error + jsval) \<times> http_call list" where
  "getCompanies svc sent = callMCPTool svc ''getCompanies'' JUndefined sent"

definition sendMessageWithMCPContext ::
  "service \<Rightarrow> OpenAIMessage list \<Rightarrow> jsval \<Rightarrow> http_call list
     \<Rightarrow> (error + string) \<times> http_call list" where
  "sendMessageWithMCPContext svc msgs mcpTools sent =
     (case getCompanies svc sent of
        (companies, sent') \<Rightarrow>
          (case enhancedMessages (JSON_parse svc) (greater_0 svc) companies msgs mcpTools of
             Inl e \<Rightarrow> (Inl e, sent')
           | Inr enhanced \<Rightarrow> sendMessage svc enhanced sent'))"

section \<open>Tool descriptors\<close>

text \<open>
  What the degraded tier expects of an entry of the tool list, and the line it is to
  write for it: the entry is a value with fields to read, whose \<^verbatim>\<open>name\<close> and
  \<^verbatim>\<open>description\<close> convert to text; the line is \<^verbatim>\<open>- name: description\<close>, with
  \<^verbatim>\<open>No description available\<close> for a description that is absent (or falsy).
\<close>

definition descriptor :: "jsval \<Rightarrow> bool" where
  "descriptor t =
     (\<not> nullish t \<and> convertible (read t ''name'') \<and> convertible (read t ''description''))"

definition tool_entry :: "jsval \<Rightarrow> string" where
  "tool_entry t =
     ''- '' @ to_string (read t ''name'') @ '': ''
     @ (if truthy (read t ''description'') then to_string (read t ''description'')
        else ''No description available'')"

section \<open>The three tiers\<close>



section \<open>A host to run the service on\<close>

text \<open>
  The theorems below hold for every \<^verbatim>\<open>JSON.parse\<close> and every comparison the host may
  have. To run the service on concrete data, this section gives one host: a reader
  for the JSON texts without \<^verbatim>\<open>\u\<close> escapes, without repeated keys, and with
  integer literals of at most fifteen digits (so that the number read is exact and
  its rendering is the literal, \<open>''0''\<close> for \<^verbatim>\<open>-0\<close>). On such a text it gives the
  value that \<^verbatim>\<open>JSON.parse\<close> gives; it gives up (\<open>None\<close>) on any other text. The
  recursion is on a bound that the length of the text always covers.
\<close>

definition is_ws :: "char \<Rightarrow> bool" where
  "is_ws c = (c = CHR '' '' \<or> c = CHR 0x09 \<or> c = CHR 0x0A \<or> c = CHR 0x0D)"

definition skip_ws :: "string \<Rightarrow> string" where
  "skip_ws s = dropWhile is_ws s"

definition is_digit :: "char \<Rightarrow> bool" where
  "is_digit c = (c \<in> set ''0123456789'')"

definition unescape :: "char \<Rightarrow> char option" where
  "unescape c =
     (if c = CHR 0x22 \<or> c = CHR 0x5C \<or> c = CHR ''/'' then Some c
      else if c = CHR ''b'' then Some (CHR 0x08)
      else if c = CHR ''f'' then Some (CHR 0x0C)
      else if c = CHR ''n'' then Some (CHR 0x0A)
      else if c = CHR ''r'' then Some (CHR 0x0D)
      else if c = CHR ''t'' then Some (CHR 0x09)
      else None)"

fun string_chars :: "string \<Rightarrow> (string \<times> string) option" where
  "string_chars [] = None"
| "string_chars [c] = (if c = CHR 0x22 then Some ([], []) else None)"
| "string_chars (c # d # cs) =
     (if c = CHR 0x22 then Some ([], d # cs)
      else if c = CHR 0x5C then
        (case unescape d of
           None \<Rightarrow> None
         | Some ch \<Rightarrow> map_option (\<lambda>(t, r). (ch # t, r)) (string_chars cs))
      else if of_char c < (32 :: nat) then None
      else map_option (\<lambda>(t, r). (c # t, r)) (string_chars (d # cs)))"

definition number_literal :: "string \<Rightarrow> (string \<times> string) option" where
  "number_literal s =
     (let negative = startsWith s ''-'';
          r = (if negative then drop 1 s else s);
          ds = takeWhile is_digit r;
          rest = dropWhile is_digit r
      in if ds = [] \<or> (length ds > 1 \<and> hd ds = CHR ''0'') \<or> length ds > 15
            \<or> (rest \<noteq> [] \<and> hd rest \<in> set ''.eE'')
         then None
         else Some (if negative \<and> ds \<noteq> ''0'' then CHR ''-'' # ds else ds, rest))"

fun value_of :: "nat \<Rightarrow> string \<Rightarrow> (jsval \<times> string) option"
  and elements_of :: "nat \<Rightarrow> string \<Rightarrow> (jsval list \<times> string) option"
  and members_of :: "nat \<Rightarrow> string \<Rightarrow> ((string \<times> jsval) list \<times> string) option" where
  "value_of 0 s = None"
| "value_of (Suc n) s =
     (if startsWith s ''null'' then Some (JNull, drop 4 s)
      else if startsWith s ''true'' then Some (JBool True, drop 4 s)
      else if startsWith s ''false'' then Some (JBool False, drop 5 s)
      else if startsWith s [CHR 0x22] then
        map_option (\<lambda>(t, r). (JStr t, r)) (string_chars (drop 1 s))
      else if startsWith s ''['' then
        (let r = skip_ws (drop 1 s)
         in if startsWith r '']'' then Some (JArr [], drop 1 r)
            else map_option (\<lambda>(xs, r'). (JArr xs, r')) (elements_of n r))
      else if startsWith s ''{'' then
        (let r = skip_ws (drop 1 s)
         in if startsWith r ''}'' then Some (JObj [], drop 1 r)
            else (case members_of n r of
                    None \<Rightarrow> None
                  | Some (kvs, r') \<Rightarrow>
                      if distinct (map fst kvs) then Some (JObj kvs, r') else None))
      else map_option (\<lambda>(t, r). (JNum t, r)) (number_literal s))"
| "elements_of 0 s = None"
| "elements_of (Suc n) s =
     (case value_of n s of
        None \<Rightarrow> None
      | Some (v, r) \<Rightarrow>
          (let r' = skip_ws r
           in if startsWith r' '','' then
                map_option (\<lambda>(vs, r''). (v # vs, r'')) (elements_of n (skip_ws (drop 1 r')))
              else if startsWith r' '']'' then Some ([v], drop 1 r')
              else None))"
| "members_of 0 s = None"
| "members_of (Suc n) s =
     (if startsWith s [CHR 0x22] then
        (case string_chars (drop 1 s) of
           None \<Rightarrow> None
         | Some (k, r) \<Rightarrow>
             (let r1 = skip_ws r
              in if startsWith r1 '':'' then
                   (case value_of n (skip_ws (drop 1 r1)) of
                      None \<Rightarrow> None
                    | Some (v, r2) \<Rightarrow>
                        (let r3 = skip_ws r2
                         in if startsWith r3 '','' then
                              map_option (\<lambda>(kvs, r4). ((k, v) # kvs, r4))
                                (members_of n (skip_ws (drop 1 r3)))
                            else if startsWith r3 ''}'' then Some ([(k, v)], drop 1 r3)
                            else None))
                 else None))
      else None)"

definition parse_json :: "string \<Rightarrow> jsval option" where
  "parse_json s =
     (case value_of (2 * length s + 2) (skip_ws s) of
        None \<Rightarrow> None
      | Some (v, r) \<Rightarrow> if skip_ws r = [] then Some v else None)"


text \<open>\<^verbatim>\<open>w > 0\<close> on the numbers and booleans; the other kinds are left to the real host.\<close>

fun positive :: "jsval \<Rightarrow> bool" where
  "positive (JNum s) = (s \<noteq> ''0'' \<and> s \<noteq> ''NaN'' \<and> \<not> startsWith s ''-'')"
| "positive (JBool b) = b"
| "positive v = False"

text \<open>
  A service with a credential, whose MCP endpoint answers every request with
  \<open>mcp\<close> and whose completion endpoint answers with one choice, \<open>reply\<close>.
\<close>

definition one_choice :: "string \<Rightarrow> OpenAIResponse" where
  "one_choice reply =
     \<lparr>choices = [\<lparr>message = \<lparr>message_content = reply, message_role = ''assistant''\<rparr>\<rparr>]\<rparr>"

definition test_service :: "error + string \<Rightarrow> string \<Rightarrow> service" where
  "test_service mcp reply =
     \<lparr>getApiKey = ''sk-test'', Date_now = 1700000000000, JSON_parse = parse_json,
      greater_0 = positive, openai_answer = (\<lambda>body. Inr (one_choice reply)),
      mcp_answer = (\<lambda>request. mcp)\<rparr>"

section \<open>Basic facts\<close>

lemma then_do_Inl [simp]: "then_do (Inl e) f = Inl e"
  by (simp add: then_do_def)

lemma then_do_Inr [simp]: "then_do (Inr x) f = f x"
  by (simp add: then_do_def)

lemma map_throw_all:
  "\<forall>x\<in>set xs. f x = Inr (g x) \<Longrightarrow> map_throw f xs = Inr (map g xs)"
  by (induction xs) auto

lemma truthy_not_nullish: "truthy v \<Longrightarrow> \<not> nullish v"
  by (cases v) auto

lemma read_truthy_not_nullish: "truthy (read v k) \<Longrightarrow> \<not> nullish v"
  by (cases v) auto

lemma read_truthy_truthy: "truthy (read v k) \<Longrightarrow> truthy v"
  by (cases v) auto

lemma read_JArr_truthy: "read v k = JArr xs \<Longrightarrow> truthy v"
  by (cases v) auto

lemma startsWith_nonempty: "startsWith l ''data: '' \<Longrightarrow> l \<noteq> []"
  by (auto simp: startsWith_def)

text \<open>The lines of a text hold no line feed, and joined by line feeds they give it back.\<close>

lemma split_lines_nonempty: "split_lines s \<noteq> []"
  by (induction s) (auto split: list.splits)

lemma split_lines_no_newline: "l \<in> set (split_lines s) \<Longrightarrow> CHR 0x0A \<notin> set l"
  by (induction s arbitrary: l) (auto split: list.splits if_splits)

lemma join_split_lines: "join [CHR 0x0A] (split_lines s) = s"
proof (induction s)
  case Nil
  show ?case by simp
next
  case (Cons c cs)
  obtain l ls where l: "split_lines cs = l # ls"
    using split_lines_nonempty [of cs] by (cases "split_lines cs") auto
  show ?case
  proof (cases "c = CHR 0x0A")
    case True
    with Cons l show ?thesis by simp
  next
    case False
    with Cons l show ?thesis by (cases ls) auto
  qed
qed

section \<open>The frame decoder\<close>

lemma find_first:
  assumes "i < length xs" and "P (xs ! i)" and "\<forall>j<i. \<not> P (xs ! j)"
  shows "find P xs = Some (xs ! i)"
  using assms by (auto simp: find_Some_iff)

lemma sse_result_no_data_line:
  assumes "\<forall>l\<in>set (split_lines body). \<not> startsWith l ''data: ''"
  shows "sse_result parse label body = Inl (Error ''Invalid SSE response format'')"
proof -
  have "find (\<lambda>line. startsWith line ''data: '') (split_lines body) = None"
    using assms by (simp add: find_None_iff)
  then show ?thesis by (simp add: sse_result_def)
qed

lemma sse_result_data_line:
  assumes "i < length (split_lines body)"
    and "startsWith (split_lines body ! i) ''data: ''"
    and "\<forall>j<i. \<not> startsWith (split_lines body ! j) ''data: ''"
    and "parse (drop 6 (split_lines body ! i)) = Some v"
  shows "sse_result parse label body =
           then_do (get_prop v ''error'') (\<lambda>err.
             if truthy err
             then then_do (get_prop err ''message'') (\<lambda>m.
                    then_do (as_string m) (\<lambda>text. Inl (Error (label @ text))))
             else get_prop v ''result'')"
proof -
  have "find (\<lambda>line. startsWith line ''data: '') (split_lines body) = Some (split_lines body ! i)"
    using assms(1-3) by (rule find_first)
  moreover have "split_lines body ! i \<noteq> []"
    using assms(2) by (rule startsWith_nonempty)
  ultimately show ?thesis
    using assms(4) by (simp add: sse_result_def)
qed

lemma fst_callMCPMethod:
  "mcp_answer svc (jsonRpcRequest svc meth ps) = Inr body \<Longrightarrow>
   fst (callMCPMethod svc meth ps sent) = sse_result (JSON_parse svc) ''MCP Error: '' body"
  by (simp add: callMCPMethod_def)

lemma fst_initializeMCP:
  "mcp_answer svc initRequest = Inr body \<Longrightarrow>
   fst (initializeMCP svc sent) = sse_result (JSON_parse svc) ''MCP Initialization Error: '' body"
  by (simp add: initializeMCP_def)

lemma answer_test_service [simp]: "mcp_answer (test_service mcp reply) request = mcp"
  by (simp add: test_service_def)

lemma parse_test_service [simp]: "JSON_parse (test_service mcp reply) = parse_json"
  by (simp add: test_service_def)

text \<open>
  Claim C2, as the code has it. Let the MCP endpoint answer a call with the text
  \<open>body\<close>. If the first line of \<open>body\<close> that begins with \<^verbatim>\<open>data: \<close> holds, after
  that prefix, a text that \<^verbatim>\<open>JSON.parse\<close> reads as \<open>v\<close>, then: when \<open>v\<close> is not
  \<^verbatim>\<open>null\<close> and its \<^verbatim>\<open>error\<close> is absent or falsy, \<^verbatim>\<open>callMCPMethod\<close> gives exactly
  the \<^verbatim>\<open>result\<close> of \<open>v\<close>; when the \<^verbatim>\<open>error\<close> of \<open>v\<close> is truthy, it fails, with
  the message \<^verbatim>\<open>MCP Error: \<close> followed by the \<^verbatim>\<open>message\<close> of that error (with a
  \<^verbatim>\<open>TypeError\<close> if that message has no text). If no line begins with \<^verbatim>\<open>data: \<close>, it
  fails with \<^verbatim>\<open>Invalid SSE response format\<close>.
\<close>

theorem callMCPMethod_decodes_frame:
  assumes "mcp_answer svc (jsonRpcRequest svc meth ps) = Inr body"
  shows "(\<forall>i v. i < length (split_lines body)
              \<and> startsWith (split_lines body ! i) ''data: ''
              \<and> (\<forall>j<i. \<not> startsWith (split_lines body ! j) ''data: '')
              \<and> JSON_parse svc (drop 6 (split_lines body ! i)) = Some v \<longrightarrow>
            (\<not> nullish v \<and> \<not> truthy (read v ''error'') \<longrightarrow>
               fst (callMCPMethod svc meth ps sent) = Inr (read v ''result''))
          \<and> (truthy (read v ''error'') \<longrightarrow>
               fst (callMCPMethod svc meth ps sent) =
                 (if convertible (read (read v ''error'') ''message'')
                  then Inl (Error (''MCP Error: ''
                                   @ to_string (read (read v ''error'') ''message'')))
                  else Inl TypeError)))
       \<and> ((\<forall>l\<in>set (split_lines body). \<not> startsWith l ''data: '') \<longrightarrow>
            fst (callMCPMethod svc meth ps sent) = Inl (Error ''Invalid SSE response format''))"
proof (intro conjI allI impI)
  fix i v
  assume h: "i < length (split_lines body)
              \<and> startsWith (split_lines body ! i) ''data: ''
              \<and> (\<forall>j<i. \<not> startsWith (split_lines body ! j) ''data: '')
              \<and> JSON_parse svc (drop 6 (split_lines body ! i)) = Some v"
  have r: "sse_result (JSON_parse svc) ''MCP Error: '' body =
           then_do (get_prop v ''error'') (\<lambda>err.
             if truthy err
             then then_do (get_prop err ''message'') (\<lambda>m.
                    then_do (as_string m) (\<lambda>text. Inl (Error (''MCP Error: '' @ text))))
             else get_prop v ''result'')"
    using h by (intro sse_result_data_line) auto
  {
    assume "\<not> nullish v \<and> \<not> truthy (read v ''error'')"
    then show "fst (callMCPMethod svc meth ps sent) = Inr (read v ''result'')"
      using r by (simp add: fst_callMCPMethod [OF assms] get_prop_def)
  }
  {
    assume t: "truthy (read v ''error'')"
    then have "\<not> nullish v" and "\<not> nullish (read v ''error'')"
      by (auto dest: read_truthy_not_nullish truthy_not_nullish)
    then show "fst (callMCPMethod svc meth ps sent) =
                 (if convertible (read (read v ''error'') ''message'')
                  then Inl (Error (''MCP Error: ''
                                   @ to_string (read (read v ''error'') ''message'')))
                  else Inl TypeError)"
      using r t by (simp add: fst_callMCPMethod [OF assms] get_prop_def as_string_def)
  }
next
  assume "\<forall>l\<in>set (split_lines body). \<not> startsWith l ''data: ''"
  then show "fst (callMCPMethod svc meth ps sent) = Inl (Error ''Invalid SSE response format'')"
    by (simp add: fst_callMCPMethod [OF assms] sse_result_no_data_line)
qed

text \<open>The theorem at work on the answer of a \<^verbatim>\<open>tools/list\<close> call.\<close>

theorem callMCPMethod_decodes_frame_witness:
  \<open>fst (callMCPMethod (test_service (Inr ''event: message\<newline>data: {"result":{"tools":[]},"jsonrpc":"2.0","id":1}'') ''hi'')
           ''tools/list'' JUndefined [])
     = Inr (JObj [(''tools'', JArr [])])
   \<and> fst (callMCPMethod (test_service (Inr ''event: message\<newline>data: {"jsonrpc":"2.0","id":1,"error":{"code":-32601,"message":"Method not found"}}'') ''hi'')
           ''tools/list'' JUndefined [])
     = Inl (Error ''MCP Error: Method not found'')
   \<and> fst (callMCPMethod (test_service (Inr ''<html>Bad Gateway</html>\<newline>'') ''hi'')
           ''tools/list'' JUndefined [])
     = Inl (Error ''Invalid SSE response format'')\<close>
proof -
  let ?body1 = \<open>''event: message\<newline>data: {"result":{"tools":[]},"jsonrpc":"2.0","id":1}''\<close>
  let ?svc1 = "test_service (Inr ?body1) ''hi''"
  let ?v1 = "JObj [(''result'', JObj [(''tools'', JArr [])]), (''jsonrpc'', JStr ''2.0''),
                   (''id'', JNum ''1'')]"
  have a1: "mcp_answer ?svc1 (jsonRpcRequest ?svc1 ''tools/list'' JUndefined) = Inr ?body1"
    by simp
  have l1: \<open>split_lines ?body1 = [''event: message'', ''data: {"result":{"tools":[]},"jsonrpc":"2.0","id":1}'']\<close>
    by simp
  have p1: \<open>parse_json ''{"result":{"tools":[]},"jsonrpc":"2.0","id":1}'' = Some ?v1\<close>
    by code_simp
  have "1 < length (split_lines ?body1)
          \<and> startsWith (split_lines ?body1 ! 1) ''data: ''
          \<and> (\<forall>j<1. \<not> startsWith (split_lines ?body1 ! j) ''data: '')
          \<and> JSON_parse ?svc1 (drop 6 (split_lines ?body1 ! 1)) = Some ?v1"
    unfolding l1 using p1 by (simp add: startsWith_def)
  moreover have "\<not> nullish ?v1 \<and> \<not> truthy (read ?v1 ''error'')"
    by simp
  ultimately have "fst (callMCPMethod ?svc1 ''tools/list'' JUndefined []) = Inr (read ?v1 ''result'')"
    using callMCPMethod_decodes_frame [OF a1, of "[]"] by blast
  then have 1: "fst (callMCPMethod ?svc1 ''tools/list'' JUndefined []) = Inr (JObj [(''tools'', JArr [])])"
    by simp
  let ?body2 = \<open>''event: message\<newline>data: {"jsonrpc":"2.0","id":1,"error":{"code":-32601,"message":"Method not found"}}''\<close>
  let ?svc2 = "test_service (Inr ?body2) ''hi''"
  let ?v2 = "JObj [(''jsonrpc'', JStr ''2.0''), (''id'', JNum ''1''),
                   (''error'', JObj [(''code'', JNum ''-32601''),
                                     (''message'', JStr ''Method not found'')])]"
  have a2: "mcp_answer ?svc2 (jsonRpcRequest ?svc2 ''tools/list'' JUndefined) = Inr ?body2"
    by simp
  have l2: \<open>split_lines ?body2 = [''event: message'', ''data: {"jsonrpc":"2.0","id":1,"error":{"code":-32601,"message":"Method not found"}}'']\<close>
    by simp
  have p2: \<open>parse_json ''{"jsonrpc":"2.0","id":1,"error":{"code":-32601,"message":"Method not found"}}'' = Some ?v2\<close>
    by code_simp
  have "1 < length (split_lines ?body2)
          \<and> startsWith (split_lines ?body2 ! 1) ''data: ''
          \<and> (\<forall>j<1. \<not> startsWith (split_lines ?body2 ! j) ''data: '')
          \<and> JSON_parse ?svc2 (drop 6 (split_lines ?body2 ! 1)) = Some ?v2"
    unfolding l2 using p2 by (simp add: startsWith_def)
  moreover have "truthy (read ?v2 ''error'')"
    by simp
  ultimately have "fst (callMCPMethod ?svc2 ''tools/list'' JUndefined []) =
      (if convertible (read (read ?v2 ''error'') ''message'')
       then Inl (Error (''MCP Error: '' @ to_string (read (read ?v2 ''error'') ''message'')))
       else Inl TypeError)"
    using callMCPMethod_decodes_frame [OF a2, of "[]"] by blast
  then have 2: "fst (callMCPMethod ?svc2 ''tools/list'' JUndefined []) =
      Inl (Error ''MCP Error: Method not found'')"
    by simp
  let ?body3 = \<open>''<html>Bad Gateway</html>\<newline>''\<close>
  let ?svc3 = "test_service (Inr ?body3) ''hi''"
  have a3: "mcp_answer ?svc3 (jsonRpcRequest ?svc3 ''tools/list'' JUndefined) = Inr ?body3"
    by simp
  have "\<forall>l\<in>set (split_lines ?body3). \<not> startsWith l ''data: ''"
    by (simp add: startsWith_def)
  then have 3: "fst (callMCPMethod ?svc3 ''tools/list'' JUndefined []) =
      Inl (Error ''Invalid SSE response format'')"
    using callMCPMethod_decodes_frame [OF a3, of "[]"] by blast
  from 1 2 3 show ?thesis by simp
qed

text \<open>
  Where the claim as written fails: it lets every \<^verbatim>\<open>error\<close> field fail the call, and
  every JSON value without one succeed. A frame whose \<^verbatim>\<open>error\<close> is \<^verbatim>\<open>null\<close> gives its
  \<^verbatim>\<open>result\<close>, and the frame \<^verbatim>\<open>data: null\<close>, a JSON value without an \<^verbatim>\<open>error\<close> field,
  fails on the read of \<^verbatim>\<open>error\<close>.
\<close>

theorem callMCPMethod_error_field_counterexample:
  \<open>parse_json ''{"error":null,"result":1}''
     = Some (JObj [(''error'', JNull), (''result'', JNum ''1'')])
   \<and> fst (callMCPMethod (test_service (Inr ''event: message\<newline>data: {"error":null,"result":1}'') ''hi'')
           ''tools/list'' JUndefined [])
     = Inr (JNum ''1'')
   \<and> parse_json ''null'' = Some JNull
   \<and> fst (callMCPMethod (test_service (Inr ''event: message\<newline>data: null'') ''hi'')
           ''tools/list'' JUndefined [])
     = Inl TypeError\<close>
  by code_simp

text \<open>
  Claim C10. When the first \<^verbatim>\<open>data: \<close> line of the answer parses as a JSON object that
  has neither an \<^verbatim>\<open>error\<close> nor a \<^verbatim>\<open>result\<close>, \<^verbatim>\<open>callMCPMethod\<close> does not fail: it gives
  \<^verbatim>\<open>undefined\<close>, the read of the absent \<^verbatim>\<open>result\<close>.
\<close>

theorem callMCPMethod_absent_result:
  assumes "mcp_answer svc (jsonRpcRequest svc meth ps) = Inr body"
    and "i < length (split_lines body)"
    and "startsWith (split_lines body ! i) ''data: ''"
    and "\<forall>j<i. \<not> startsWith (split_lines body ! j) ''data: ''"
    and "JSON_parse svc (drop 6 (split_lines body ! i)) = Some (JObj kvs)"
    and "map_of kvs ''error'' = None"
    and "map_of kvs ''result'' = None"
  shows "fst (callMCPMethod svc meth ps sent) = Inr JUndefined"
proof -
  have "sse_result (JSON_parse svc) ''MCP Error: '' body =
           then_do (get_prop (JObj kvs) ''error'') (\<lambda>err.
             if truthy err
             then then_do (get_prop err ''message'') (\<lambda>m.
                    then_do (as_string m) (\<lambda>text. Inl (Error (''MCP Error: '' @ text))))
             else get_prop (JObj kvs) ''result'')"
    using assms(2-5) by (rule sse_result_data_line)
  then show ?thesis
    using assms(6,7) by (simp add: fst_callMCPMethod [OF assms(1)] get_prop_def)
qed

theorem callMCPMethod_absent_result_witness:
  \<open>fst (callMCPMethod (test_service (Inr ''event: message\<newline>data: {"jsonrpc":"2.0","id":1}'') ''hi'')
           ''notifications/initialized'' JUndefined [])
     = Inr JUndefined\<close>
proof -
  let ?body = \<open>''event: message\<newline>data: {"jsonrpc":"2.0","id":1}''\<close>
  let ?svc = "test_service (Inr ?body) ''hi''"
  let ?kvs = "[(''jsonrpc'', JStr ''2.0''), (''id'', JNum ''1'')]"
  have a: "mcp_answer ?svc (jsonRpcRequest ?svc ''notifications/initialized'' JUndefined) = Inr ?body"
    by simp
  have l: \<open>split_lines ?body = [''event: message'', ''data: {"jsonrpc":"2.0","id":1}'']\<close>
    by simp
  have p: \<open>parse_json ''{"jsonrpc":"2.0","id":1}'' = Some (JObj ?kvs)\<close>
    by code_simp
  have i: "(1::nat) < length (split_lines ?body)"
    unfolding l by simp
  have s: "startsWith (split_lines ?body ! 1) ''data: ''"
    unfolding l by (simp add: startsWith_def)
  have n: "\<forall>j<1. \<not> startsWith (split_lines ?body ! j) ''data: ''"
    unfolding l by (simp add: startsWith_def)
  have q: "JSON_parse ?svc (drop 6 (split_lines ?body ! 1)) = Some (JObj ?kvs)"
    unfolding l using p by simp
  show ?thesis
    using callMCPMethod_absent_result [OF a i s n q, of "[]"] by simp
qed

section \<open>The completion call\<close>

lemma sendMessage_test_service:
  "sendMessage (test_service mcp reply) ms sent =
     (Inr reply,
      sent @ [OpenAI_post openaiApiUrl
                [(''Content-Type'', ''application/json''),
                 (''Accept'', ''application/json, text/event-stream''),
                 (''Authorization'', ''Bearer sk-test'')]
                \<lparr>model = ''gpt-3.5-turbo'', messages = ms,
                 max_tokens = 1000, temperature = 0.7\<rparr>])"
  by (simp add: sendMessage_def test_service_def one_choice_def)

text \<open>
  Claim C5. With the empty string as credential, \<^verbatim>\<open>sendMessage\<close> fails with
  \<^verbatim>\<open>OpenAI API key not set\<close> and the list of requests sent is as it was, whatever the
  endpoint would answer. With a credential: on a response whose \<^verbatim>\<open>choices\<close> start
  with a choice it gives the content of that choice's message; on a response with no
  choice it fails with \<^verbatim>\<open>No response from OpenAI\<close>.
\<close>

theorem sendMessage_outcomes:
  "(getApiKey svc = [] \<longrightarrow>
      sendMessage svc msgs sent = (Inl (Error ''OpenAI API key not set''), sent))
   \<and> (\<forall>r c cs. getApiKey svc \<noteq> []
         \<and> openai_answer svc \<lparr>model = ''gpt-3.5-turbo'', messages = msgs,
                               max_tokens = 1000, temperature = 0.7\<rparr> = Inr r
         \<and> choices r = c # cs \<longrightarrow>
       fst (sendMessage svc msgs sent) = Inr (message_content (message c)))
   \<and> (\<forall>r. getApiKey svc \<noteq> []
         \<and> openai_answer svc \<lparr>model = ''gpt-3.5-turbo'', messages = msgs,
                               max_tokens = 1000, temperature = 0.7\<rparr> = Inr r
         \<and> choices r = [] \<longrightarrow>
       fst (sendMessage svc msgs sent) = Inl (Error ''No response from OpenAI''))"
proof (intro conjI allI impI)
  assume "getApiKey svc = []"
  then show "sendMessage svc msgs sent = (Inl (Error ''OpenAI API key not set''), sent)"
    by (simp add: sendMessage_def)
next
  fix r c cs
  assume "getApiKey svc \<noteq> []
         \<and> openai_answer svc \<lparr>model = ''gpt-3.5-turbo'', messages = msgs,
                               max_tokens = 1000, temperature = 0.7\<rparr> = Inr r
         \<and> choices r = c # cs"
  then show "fst (sendMessage svc msgs sent) = Inr (message_content (message c))"
    by (simp add: sendMessage_def)
next
  fix r
  assume "getApiKey svc \<noteq> []
         \<and> openai_answer svc \<lparr>model = ''gpt-3.5-turbo'', messages = msgs,
                               max_tokens = 1000, temperature = 0.7\<rparr> = Inr r
         \<and> choices r = []"
  then show "fst (sendMessage svc msgs sent) = Inl (Error ''No response from OpenAI'')"
    by (simp add: sendMessage_def)
qed

theorem sendMessage_outcomes_witness:
  "sendMessage ((test_service (Inl (HttpErrorResponse 503)) ''hi'')\<lparr>getApiKey := []\<rparr>)
       [\<lparr>role = User, content = ''q''\<rparr>] []
     = (Inl (Error ''OpenAI API key not set''), [])
   \<and> fst (sendMessage (test_service (Inl (HttpErrorResponse 503)) ''hi'')
            [\<lparr>role = User, content = ''q''\<rparr>] [])
     = Inr ''hi''
   \<and> fst (sendMessage ((test_service (Inl (HttpErrorResponse 503)) ''hi'')
                          \<lparr>openai_answer := (\<lambda>body. Inr \<lparr>choices = []\<rparr>)\<rparr>)
            [\<lparr>role = User, content = ''q''\<rparr>] [])
     = Inl (Error ''No response from OpenAI'')"
proof -
  let ?m = "[\<lparr>role = User, content = ''q''\<rparr>]"
  let ?s1 = "(test_service (Inl (HttpErrorResponse 503)) ''hi'')\<lparr>getApiKey := []\<rparr>"
  let ?s2 = "test_service (Inl (HttpErrorResponse 503)) ''hi''"
  let ?s3 = "(test_service (Inl (HttpErrorResponse 503)) ''hi'')
               \<lparr>openai_answer := (\<lambda>body. Inr \<lparr>choices = []\<rparr>)\<rparr>"
  have 1: "sendMessage ?s1 ?m [] = (Inl (Error ''OpenAI API key not set''), [])"
    using sendMessage_outcomes [of ?s1 ?m "[]"] by simp
  have 2: "fst (sendMessage ?s2 ?m []) = Inr ''hi''"
    using sendMessage_outcomes [of ?s2 ?m "[]"]
    by (simp add: test_service_def one_choice_def)
  have 3: "fst (sendMessage ?s3 ?m []) = Inl (Error ''No response from OpenAI'')"
    using sendMessage_outcomes [of ?s3 ?m "[]"]
    by (simp add: test_service_def)
  from 1 2 3 show ?thesis by simp
qed

text \<open>
  Claim C8. \<^verbatim>\<open>sendMessage\<close> sends nothing without a credential; with one it sends one
  request, to the completion endpoint, whose body is the model \<^verbatim>\<open>gpt-3.5-turbo\<close>, the
  messages it was given, unchanged and in order, \<^verbatim>\<open>max_tokens\<close> 1000 and
  \<^verbatim>\<open>temperature\<close> 0.7.
\<close>

theorem sendMessage_request_body:
  "(getApiKey svc = [] \<longrightarrow> snd (sendMessage svc msgs sent) = sent)
   \<and> (getApiKey svc \<noteq> [] \<longrightarrow>
        (\<exists>headers. snd (sendMessage svc msgs sent) =
           sent @ [OpenAI_post ''https://api.openai.com/v1/chat/completions'' headers
                     \<lparr>model = ''gpt-3.5-turbo'', messages = msgs,
                      max_tokens = 1000, temperature = 0.7\<rparr>]))"
proof (cases "getApiKey svc = []")
  case True
  then have "snd (sendMessage svc msgs sent) = sent"
    by (simp add: sendMessage_def)
  with True show ?thesis by simp
next
  case False
  let ?headers = "[(''Content-Type'', ''application/json''),
                   (''Accept'', ''application/json, text/event-stream''),
                   (''Authorization'', ''Bearer '' @ getApiKey svc)]"
  from False have "snd (sendMessage svc msgs sent) =
           sent @ [OpenAI_post ''https://api.openai.com/v1/chat/completions'' ?headers
                     \<lparr>model = ''gpt-3.5-turbo'', messages = msgs,
                      max_tokens = 1000, temperature = 0.7\<rparr>]"
    by (simp add: sendMessage_def openaiApiUrl_def Let_def)
  with False show ?thesis by blast
qed

theorem sendMessage_request_body_witness:
  "snd (sendMessage (test_service (Inl (HttpErrorResponse 503)) ''hi'')
          [\<lparr>role = System, content = ''s''\<rparr>, \<lparr>role = User, content = ''q''\<rparr>] [])
     = [OpenAI_post ''https://api.openai.com/v1/chat/completions''
          [(''Content-Type'', ''application/json''),
           (''Accept'', ''application/json, text/event-stream''),
           (''Authorization'', ''Bearer sk-test'')]
          \<lparr>model = ''gpt-3.5-turbo'',
           messages = [\<lparr>role = System, content = ''s''\<rparr>, \<lparr>role = User, content = ''q''\<rparr>],
           max_tokens = 1000, temperature = 7 / 10\<rparr>]"
proof -
  let ?s = "test_service (Inl (HttpErrorResponse 503)) ''hi''"
  let ?m = "[\<lparr>role = System, content = ''s''\<rparr>, \<lparr>role = User, content = ''q''\<rparr>]"
  have k: "getApiKey ?s \<noteq> []"
    by (simp add: test_service_def)
  obtain headers where h: "snd (sendMessage ?s ?m []) =
      [] @ [OpenAI_post ''https://api.openai.com/v1/chat/completions'' headers
             \<lparr>model = ''gpt-3.5-turbo'', messages = ?m, max_tokens = 1000, temperature = 0.7\<rparr>]"
    using sendMessage_request_body [of ?s ?m "[]"] k by blast
  then have "headers = [(''Content-Type'', ''application/json''),
                        (''Accept'', ''application/json, text/event-stream''),
                        (''Authorization'', ''Bearer sk-test'')]"
    by (simp add: sendMessage_test_service)
  with h show ?thesis by simp
qed

section \<open>The company context\<close>

lemma joined_or_None_absent [simp]: "joined_or_None f JUndefined = Inr ''None''"
  by (simp add: joined_or_None_def)

lemma joined_or_None_empty [simp]: "joined_or_None f (JArr []) = Inr ''None''"
  by (simp add: joined_or_None_def array_join_def)


text \<open>
  Claim C6. Whenever \<^verbatim>\<open>JSON.parse\<close> reads the text of the payload as the one-element
  list that the text denotes, \<^verbatim>\<open>createContext\<close> finds exactly one record in the
  payload and gives exactly the four lines
  \<^verbatim>\<open>Company: Acme\<close>, \<^verbatim>\<open>Description: d\<close>, \<^verbatim>\<open>Chatbots: c1\<close>, \<^verbatim>\<open>LLM Models: m1 (s1)\<close>.
\<close>

theorem createContext_acme:
  assumes \<open>parse ''[{"company":"Acme","description":"d","chats":[{"chatbot":"c1"}],"llms":[{"llm":"m1","specialization":"s1"}]}]''
     = Some (JArr [JObj [(''company'', JStr ''Acme''), (''description'', JStr ''d''),
                         (''chats'', JArr [JObj [(''chatbot'', JStr ''c1'')]]),
                         (''llms'', JArr [JObj [(''llm'', JStr ''m1''),
                                                (''specialization'', JStr ''s1'')]])]])\<close>
  shows \<open>companiesArray parse
           (JObj [(''content'', JArr [JObj [(''text'',
              JStr ''[{"company":"Acme","description":"d","chats":[{"chatbot":"c1"}],"llms":[{"llm":"m1","specialization":"s1"}]}]'')]])])
         = Some [JObj [(''company'', JStr ''Acme''), (''description'', JStr ''d''),
                       (''chats'', JArr [JObj [(''chatbot'', JStr ''c1'')]]),
                       (''llms'', JArr [JObj [(''llm'', JStr ''m1''),
                                              (''specialization'', JStr ''s1'')]])]]
       \<and> createContext parse
           (JObj [(''content'', JArr [JObj [(''text'',
              JStr ''[{"company":"Acme","description":"d","chats":[{"chatbot":"c1"}],"llms":[{"llm":"m1","specialization":"s1"}]}]'')]])])
         = Inr ''Company: Acme\<newline>Description: d\<newline>Chatbots: c1\<newline>LLM Models: m1 (s1)''\<close>
proof -
  let ?acme = "JObj [(''company'', JStr ''Acme''), (''description'', JStr ''d''),
                       (''chats'', JArr [JObj [(''chatbot'', JStr ''c1'')]]),
                       (''llms'', JArr [JObj [(''llm'', JStr ''m1''),
                                              (''specialization'', JStr ''s1'')]])]"
  let ?payload = \<open>JObj [(''content'', JArr [JObj [(''text'',
              JStr ''[{"company":"Acme","description":"d","chats":[{"chatbot":"c1"}],"llms":[{"llm":"m1","specialization":"s1"}]}]'')]])]\<close>
  have a: "companiesArray parse ?payload = Some [?acme]"
    using assms by (simp add: companiesArray_def as_string_def)
  have c: "chats_text ?acme = Inr ''c1''"
    by (simp add: chats_text_def get_prop_def joined_or_None_def array_join_def)
  have l: "llms_text ?acme = Inr ''m1 (s1)''"
    by (simp add: llms_text_def get_prop_def joined_or_None_def array_join_def as_string_def)
  have b: "company_block ?acme = Inr ''Company: Acme\<newline>Description: d\<newline>Chatbots: c1\<newline>LLM Models: m1 (s1)''"
    by (simp add: company_block_def c l as_string_def)
  have "createContext parse ?payload = Inr ''Company: Acme\<newline>Description: d\<newline>Chatbots: c1\<newline>LLM Models: m1 (s1)''"
    unfolding createContext_def a using b by simp
  with a show ?thesis by simp
qed

theorem createContext_acme_witness:
  \<open>createContext parse_json
           (JObj [(''content'', JArr [JObj [(''text'',
              JStr ''[{"company":"Acme","description":"d","chats":[{"chatbot":"c1"}],"llms":[{"llm":"m1","specialization":"s1"}]}]'')]])])
         = Inr ''Company: Acme\<newline>Description: d\<newline>Chatbots: c1\<newline>LLM Models: m1 (s1)''\<close>
proof -
  have \<open>parse_json ''[{"company":"Acme","description":"d","chats":[{"chatbot":"c1"}],"llms":[{"llm":"m1","specialization":"s1"}]}]''
     = Some (JArr [JObj [(''company'', JStr ''Acme''), (''description'', JStr ''d''),
                         (''chats'', JArr [JObj [(''chatbot'', JStr ''c1'')]]),
                         (''llms'', JArr [JObj [(''llm'', JStr ''m1''),
                                                (''specialization'', JStr ''s1'')]])]])\<close>
    by code_simp
  from createContext_acme [where parse = parse_json, OF this] show ?thesis by simp
qed

text \<open>
  Claim C9. Take a record: a value with fields to read (any but \<^verbatim>\<open>null\<close> and
  \<^verbatim>\<open>undefined\<close>) whose \<^verbatim>\<open>company\<close> and \<^verbatim>\<open>description\<close> convert to text. If its
  \<^verbatim>\<open>chats\<close> is absent or the empty list, the text computed for the chatbots is
  \<^verbatim>\<open>None\<close> and the third line of the block is exactly \<^verbatim>\<open>Chatbots: None\<close>; likewise for
  \<^verbatim>\<open>llms\<close> and the last line, \<^verbatim>\<open>LLM Models: None\<close>.
\<close>

theorem company_block_None:
  assumes "\<not> nullish c"
    and "convertible (read c ''company'')"
    and "convertible (read c ''description'')"
  shows "((read c ''chats'' = JUndefined \<or> read c ''chats'' = JArr []) \<longrightarrow>
            chats_text c = Inr ''None''
            \<and> (\<forall>l. llms_text c = Inr l \<longrightarrow>
                 company_block c =
                   Inr (''Company: '' @ to_string (read c ''company'') @ ''\<newline>''
                        @ ''Description: '' @ to_string (read c ''description'') @ ''\<newline>''
                        @ ''Chatbots: None'' @ ''\<newline>''
                        @ ''LLM Models: '' @ l)))
       \<and> ((read c ''llms'' = JUndefined \<or> read c ''llms'' = JArr []) \<longrightarrow>
            llms_text c = Inr ''None''
            \<and> (\<forall>ch. chats_text c = Inr ch \<longrightarrow>
                 company_block c =
                   Inr (''Company: '' @ to_string (read c ''company'') @ ''\<newline>''
                        @ ''Description: '' @ to_string (read c ''description'') @ ''\<newline>''
                        @ ''Chatbots: '' @ ch @ ''\<newline>''
                        @ ''LLM Models: None'')))"
proof (intro conjI impI allI)
  assume "read c ''chats'' = JUndefined \<or> read c ''chats'' = JArr []"
  then show c: "chats_text c = Inr ''None''"
    using assms(1) by (auto simp: chats_text_def get_prop_def)
  fix l assume "llms_text c = Inr l"
  with c assms(2,3) show "company_block c =
                   Inr (''Company: '' @ to_string (read c ''company'') @ ''\<newline>''
                        @ ''Description: '' @ to_string (read c ''description'') @ ''\<newline>''
                        @ ''Chatbots: None'' @ ''\<newline>''
                        @ ''LLM Models: '' @ l)"
    by (simp add: company_block_def as_string_def)
next
  assume "read c ''llms'' = JUndefined \<or> read c ''llms'' = JArr []"
  then show l: "llms_text c = Inr ''None''"
    using assms(1) by (auto simp: llms_text_def get_prop_def)
  fix ch assume "chats_text c = Inr ch"
  with l assms(2,3) show "company_block c =
                   Inr (''Company: '' @ to_string (read c ''company'') @ ''\<newline>''
                        @ ''Description: '' @ to_string (read c ''description'') @ ''\<newline>''
                        @ ''Chatbots: '' @ ch @ ''\<newline>''
                        @ ''LLM Models: None'')"
    by (simp add: company_block_def as_string_def)
qed

theorem company_block_None_witness:
  "company_block (JObj [(''company'', JStr ''Solo''), (''description'', JStr ''x''),
                        (''chats'', JArr [])])
     = Inr ''Company: Solo\<newline>Description: x\<newline>Chatbots: None\<newline>LLM Models: None''"
proof -
  let ?c = "JObj [(''company'', JStr ''Solo''), (''description'', JStr ''x''), (''chats'', JArr [])]"
  have n: "\<not> nullish ?c" by simp
  have k: "convertible (read ?c ''company'')" by simp
  have d: "convertible (read ?c ''description'')" by simp
  have 1: "read ?c ''chats'' = JUndefined \<or> read ?c ''chats'' = JArr []" by simp
  have 2: "read ?c ''llms'' = JUndefined \<or> read ?c ''llms'' = JArr []" by simp
  from company_block_None [OF n k d] 1 have c: "chats_text ?c = Inr ''None''" by blast
  from company_block_None [OF n k d] 2 c have
    "company_block ?c =
                   Inr (''Company: '' @ to_string (read ?c ''company'') @ ''\<newline>''
                        @ ''Description: '' @ to_string (read ?c ''description'') @ ''\<newline>''
                        @ ''Chatbots: '' @ ''None'' @ ''\<newline>''
                        @ ''LLM Models: None'')" by blast
  then show ?thesis by simp
qed

text \<open>
  Claim C4, as the code has it. \<^verbatim>\<open>createContext\<close> finds the records of the payload by
  these rules, in order. A payload with a \<^verbatim>\<open>content\<close> list is read through the first
  element of that list: when the element carries a truthy \<^verbatim>\<open>text\<close>, the text is parsed
  and the parsed value is the list itself if it is a list, else its \<^verbatim>\<open>companies\<close> if
  that is a list, else the one value (not \<^verbatim>\<open>null\<close>) wrapped; a \<^verbatim>\<open>text\<close> that has no
  text, a parse that fails or one that gives \<^verbatim>\<open>null\<close> end with
  \<^verbatim>\<open>Error parsing company data.\<close>; when the element
  carries no such \<^verbatim>\<open>text\<close>, the element is the list if it is a list and is wrapped as
  the one record otherwise. Without a \<^verbatim>\<open>content\<close> list: a payload that is a list is
  the list; one with a \<^verbatim>\<open>companies\<close> list gives that list; any other object is
  wrapped; \<^verbatim>\<open>null\<close> and every value that is not an object give no record. No record
  is rendered as \<^verbatim>\<open>No company data available.\<close>
\<close>

theorem createContext_shapes:
  "(\<forall>c cs rs. read p ''content'' = JArr (c # cs) \<and> truthy (read c ''text'')
        \<and> convertible (read c ''text'')
        \<and> parse (to_string (read c ''text'')) = Some (JArr rs) \<longrightarrow>
      companiesArray parse p = Some rs)
   \<and> (\<forall>c cs v rs. read p ''content'' = JArr (c # cs) \<and> truthy (read c ''text'')
        \<and> convertible (read c ''text'')
        \<and> parse (to_string (read c ''text'')) = Some v \<and> \<not> isArray v
        \<and> read v ''companies'' = JArr rs \<longrightarrow>
      companiesArray parse p = Some rs)
   \<and> (\<forall>c cs v. read p ''content'' = JArr (c # cs) \<and> truthy (read c ''text'')
        \<and> convertible (read c ''text'')
        \<and> parse (to_string (read c ''text'')) = Some v \<and> \<not> isArray v \<and> \<not> nullish v
        \<and> \<not> isArray (read v ''companies'') \<longrightarrow>
      companiesArray parse p = Some [v])
   \<and> (\<forall>c cs. read p ''content'' = JArr (c # cs) \<and> truthy (read c ''text'')
        \<and> (\<not> convertible (read c ''text'')
            \<or> parse (to_string (read c ''text'')) = None
            \<or> parse (to_string (read c ''text'')) = Some JNull) \<longrightarrow>
      createContext parse p = Inr ''Error parsing company data.'')
   \<and> (\<forall>cs rs. read p ''content'' = JArr cs \<and> first_elem cs = JArr rs \<longrightarrow>
      companiesArray parse p = Some rs)
   \<and> (\<forall>cs. read p ''content'' = JArr cs \<and> \<not> truthy (read (first_elem cs) ''text'')
        \<and> \<not> isArray (first_elem cs) \<longrightarrow>
      companiesArray parse p = Some [first_elem cs])
   \<and> (\<forall>rs. p = JArr rs \<longrightarrow> companiesArray parse p = Some rs)
   \<and> (\<forall>rs. \<not> isArray (read p ''content'') \<and> read p ''companies'' = JArr rs \<longrightarrow>
      companiesArray parse p = Some rs)
   \<and> (\<forall>kvs. p = JObj kvs \<and> \<not> isArray (read p ''content'')
        \<and> \<not> isArray (read p ''companies'') \<longrightarrow>
      companiesArray parse p = Some [p])
   \<and> ((p = JNull \<or> \<not> typeof_object p) \<longrightarrow> companiesArray parse p = Some [])
   \<and> (companiesArray parse p = Some [] \<longrightarrow>
      createContext parse p = Inr ''No company data available.'')"
proof (intro conjI allI impI)
  fix c cs rs
  assume "read p ''content'' = JArr (c # cs) \<and> truthy (read c ''text'')
        \<and> convertible (read c ''text'')
        \<and> parse (to_string (read c ''text'')) = Some (JArr rs)"
  then show "companiesArray parse p = Some rs"
    by (auto simp: companiesArray_def as_string_def dest: read_JArr_truthy read_truthy_truthy)
next
  fix c cs v rs
  assume "read p ''content'' = JArr (c # cs) \<and> truthy (read c ''text'')
        \<and> convertible (read c ''text'')
        \<and> parse (to_string (read c ''text'')) = Some v \<and> \<not> isArray v
        \<and> read v ''companies'' = JArr rs"
  then show "companiesArray parse p = Some rs"
    by (cases v) (auto simp: companiesArray_def as_string_def dest: read_JArr_truthy read_truthy_truthy)
next
  fix c cs v
  assume "read p ''content'' = JArr (c # cs) \<and> truthy (read c ''text'')
        \<and> convertible (read c ''text'')
        \<and> parse (to_string (read c ''text'')) = Some v \<and> \<not> isArray v \<and> \<not> nullish v
        \<and> \<not> isArray (read v ''companies'')"
  then show "companiesArray parse p = Some [v]"
    by (auto simp: companiesArray_def as_string_def dest: read_JArr_truthy read_truthy_truthy)
next
  fix c cs
  assume "read p ''content'' = JArr (c # cs) \<and> truthy (read c ''text'')
        \<and> (\<not> convertible (read c ''text'')
            \<or> parse (to_string (read c ''text'')) = None
            \<or> parse (to_string (read c ''text'')) = Some JNull)"
  then have "companiesArray parse p = None"
    by (auto simp: companiesArray_def as_string_def dest: read_JArr_truthy read_truthy_truthy)
  then show "createContext parse p = Inr ''Error parsing company data.''"
    by (simp add: createContext_def)
next
  fix cs rs
  assume "read p ''content'' = JArr cs \<and> first_elem cs = JArr rs"
  then show "companiesArray parse p = Some rs"
    by (auto simp: companiesArray_def dest: read_JArr_truthy)
next
  fix cs
  assume "read p ''content'' = JArr cs \<and> \<not> truthy (read (first_elem cs) ''text'')
        \<and> \<not> isArray (first_elem cs)"
  then show "companiesArray parse p = Some [first_elem cs]"
    by (auto simp: companiesArray_def dest: read_JArr_truthy)
next
  fix rs
  assume "p = JArr rs"
  then show "companiesArray parse p = Some rs"
    by (simp add: companiesArray_def)
next
  fix rs
  assume "\<not> isArray (read p ''content'') \<and> read p ''companies'' = JArr rs"
  then show "companiesArray parse p = Some rs"
    by (cases p) (auto simp: companiesArray_def)
next
  fix kvs
  assume "p = JObj kvs \<and> \<not> isArray (read p ''content'') \<and> \<not> isArray (read p ''companies'')"
  then show "companiesArray parse p = Some [p]"
    by (auto simp: companiesArray_def)
next
  assume "p = JNull \<or> \<not> typeof_object p"
  then show "companiesArray parse p = Some []"
    by (cases p) (auto simp: companiesArray_def)
next
  assume "companiesArray parse p = Some []"
  then show "createContext parse p = Inr ''No company data available.''"
    by (simp add: createContext_def)
qed

text \<open>Each rule at work, on payloads around one record.\<close>

theorem createContext_shapes_witness:
  \<open>companiesArray parse_json
      (JObj [(''content'', JArr [JObj [(''type'', JStr ''text''),
                                       (''text'', JStr ''{"companies":[{"company":"A"}]}'')]])])
     = Some [JObj [(''company'', JStr ''A'')]]
   \<and> createContext parse_json (JObj [(''content'', JArr [JObj [(''text'', JStr ''{"companies":'')]])])
     = Inr ''Error parsing company data.''
   \<and> companiesArray parse_json (JObj [(''content'', JArr [JObj [(''company'', JStr ''A'')]])])
     = Some [JObj [(''company'', JStr ''A'')]]
   \<and> companiesArray parse_json (JArr [JObj [(''company'', JStr ''A'')]])
     = Some [JObj [(''company'', JStr ''A'')]]
   \<and> companiesArray parse_json (JObj [(''companies'', JArr [JObj [(''company'', JStr ''A'')]])])
     = Some [JObj [(''company'', JStr ''A'')]]
   \<and> companiesArray parse_json (JObj [(''company'', JStr ''A'')])
     = Some [JObj [(''company'', JStr ''A'')]]
   \<and> createContext parse_json (JStr ''no data'') = Inr ''No company data available.''\<close>
proof -
  let ?A = "JObj [(''company'', JStr ''A'')]"
  let ?c1 = \<open>JObj [(''type'', JStr ''text''), (''text'', JStr ''{"companies":[{"company":"A"}]}'')]\<close>
  let ?c2 = \<open>JObj [(''text'', JStr ''{"companies":'')]\<close>
  have p1: \<open>parse_json ''{"companies":[{"company":"A"}]}'' = Some (JObj [(''companies'', JArr [?A])])\<close>
    by code_simp
  have p2: \<open>parse_json ''{"companies":'' = None\<close>
    by code_simp
  have 1: "companiesArray parse_json (JObj [(''content'', JArr [?c1])]) = Some [?A]"
    using createContext_shapes [of "JObj [(''content'', JArr [?c1])]" parse_json,
            THEN conjunct2, THEN conjunct1, rule_format,
            of ?c1 "[]" "JObj [(''companies'', JArr [?A])]" "[?A]"] p1
    by simp
  have 2: "createContext parse_json (JObj [(''content'', JArr [?c2])])
             = Inr ''Error parsing company data.''"
    using createContext_shapes [of "JObj [(''content'', JArr [?c2])]" parse_json,
            THEN conjunct2, THEN conjunct2, THEN conjunct2, THEN conjunct1, rule_format,
            of ?c2 "[]"] p2
    by simp
  have 3: "companiesArray parse_json (JObj [(''content'', JArr [?A])]) = Some [?A]"
    using createContext_shapes [of "JObj [(''content'', JArr [?A])]" parse_json,
            THEN conjunct2, THEN conjunct2, THEN conjunct2, THEN conjunct2, THEN conjunct2,
            THEN conjunct1, rule_format, of "[?A]"]
    by simp
  have 4: "companiesArray parse_json (JArr [?A]) = Some [?A]"
    using createContext_shapes [of "JArr [?A]" parse_json,
            THEN conjunct2, THEN conjunct2, THEN conjunct2, THEN conjunct2, THEN conjunct2,
            THEN conjunct2, THEN conjunct1, rule_format, of "[?A]"]
    by simp
  have 5: "companiesArray parse_json (JObj [(''companies'', JArr [?A])]) = Some [?A]"
    using createContext_shapes [of "JObj [(''companies'', JArr [?A])]" parse_json,
            THEN conjunct2, THEN conjunct2, THEN conjunct2, THEN conjunct2, THEN conjunct2,
            THEN conjunct2, THEN conjunct2, THEN conjunct1, rule_format, of "[?A]"]
    by simp
  have 6: "companiesArray parse_json ?A = Some [?A]"
    using createContext_shapes [of ?A parse_json,
            THEN conjunct2, THEN conjunct2, THEN conjunct2, THEN conjunct2, THEN conjunct2,
            THEN conjunct2, THEN conjunct2, THEN conjunct2, THEN conjunct1, rule_format,
            of "[(''company'', JStr ''A'')]"]
    by simp
  have "companiesArray parse_json (JStr ''no data'') = Some []"
    using createContext_shapes [of "JStr ''no data''" parse_json,
            THEN conjunct2, THEN conjunct2, THEN conjunct2, THEN conjunct2, THEN conjunct2,
            THEN conjunct2, THEN conjunct2, THEN conjunct2, THEN conjunct2, THEN conjunct1]
    by simp
  then have 7: "createContext parse_json (JStr ''no data'') = Inr ''No company data available.''"
    using createContext_shapes [of "JStr ''no data''" parse_json,
            THEN conjunct2, THEN conjunct2, THEN conjunct2, THEN conjunct2, THEN conjunct2,
            THEN conjunct2, THEN conjunct2, THEN conjunct2, THEN conjunct2, THEN conjunct2]
    by simp
  from 1 2 3 4 5 6 7 show ?thesis by simp
qed

text \<open>
  Where the claim as written fails. It sends every object without a \<^verbatim>\<open>text\<close> in the
  first element of \<^verbatim>\<open>content\<close>, and without a list of its own, to the last rule,
  which wraps the payload: the code wraps the first element of \<^verbatim>\<open>content\<close> instead,
  and so renders the company inside. And it lets only a failed parse end in the error
  text, where the code ends so on the text \<^verbatim>\<open>null\<close> as well.
\<close>

theorem createContext_shapes_counterexample:
  \<open>companiesArray parse_json (JObj [(''content'', JArr [JObj [(''company'', JStr ''Acme'')]])])
     = Some [JObj [(''company'', JStr ''Acme'')]]
   \<and> companiesArray parse_json (JObj [(''content'', JArr [JObj [(''company'', JStr ''Acme'')]])])
     \<noteq> Some [JObj [(''content'', JArr [JObj [(''company'', JStr ''Acme'')]])]]
   \<and> createContext parse_json (JObj [(''content'', JArr [JObj [(''company'', JStr ''Acme'')]])])
     = Inr ''Company: Acme\<newline>Description: undefined\<newline>Chatbots: None\<newline>LLM Models: None''
   \<and> parse_json ''null'' = Some JNull
   \<and> createContext parse_json (JObj [(''content'', JArr [JObj [(''text'', JStr ''null'')]])])
     = Inr ''Error parsing company data.''\<close>
  by code_simp


section \<open>The context composer\<close>


lemma rich_tier_eq:
  "then_do companies (rich_tier parse msgs) =
     (case then_do companies (createContext parse) of
        Inl e \<Rightarrow> Inl e
      | Inr ctx \<Rightarrow>
          Inr (\<lparr>role = System, content = systemPrompt ctx\<rparr> # without_system msgs))"
  by (cases companies) (auto simp: rich_tier_def split: sum.splits)


lemma enhancedMessages_failed:
  assumes "then_do companies (createContext parse) = Inl e"
  shows "enhancedMessages parse gt0 companies msgs mcpTools = fallback gt0 msgs mcpTools"
  using assms by (simp add: enhancedMessages_def rich_tier_eq)




lemma tool_line_value: "descriptor t \<Longrightarrow> tool_line t = Inr (tool_entry t)"
  by (simp add: descriptor_def tool_line_def tool_entry_def get_prop_def as_string_def)

lemma tool_entry_fun:
  "tool_entry =
     (\<lambda>t. ''- '' @ to_string (read t ''name'') @ '': ''
          @ (if truthy (read t ''description'') then to_string (read t ''description'')
             else ''No description available''))"
  by (rule ext) (simp add: tool_entry_def)

lemma toolsDescription_value:
  assumes "\<forall>t\<in>set ts. descriptor t"
  shows "toolsDescription (JArr ts) = Inr (join ''\<newline>'' (map tool_entry ts))"
proof -
  have "map_throw tool_line ts = Inr (map tool_entry ts)"
    using assms by (intro map_throw_all) (simp add: tool_line_value)
  then show ?thesis by (simp add: toolsDescription_def)
qed

lemma has_tools_list: "read mcpTools ''tools'' = JArr ts \<Longrightarrow> has_tools gt0 mcpTools = (ts \<noteq> [])"
  by (auto simp: has_tools_def dest: read_JArr_truthy)

lemma has_tools_absent:
  assumes "mcpTools = JUndefined \<or> mcpTools = JNull \<or> read mcpTools ''tools'' = JUndefined
           \<or> read mcpTools ''tools'' = JNull \<or> read mcpTools ''tools'' = JArr []"
  shows "\<not> has_tools gt0 mcpTools"
  using assms by (auto simp: has_tools_def)

lemma fallback_list:
  assumes "read mcpTools ''tools'' = JArr ts" and "ts \<noteq> []" and "\<forall>t\<in>set ts. descriptor t"
  shows "fallback gt0 msgs mcpTools =
           Inr (\<lparr>role = System,
                  content = toolsPrompt (join ''\<newline>'' (map tool_entry ts))\<rparr>
                # without_system msgs)"
  using assms(1,2) toolsDescription_value [OF assms(3)]
  by (simp add: fallback_def has_tools_list)

lemma fallback_absent:
  assumes "mcpTools = JUndefined \<or> mcpTools = JNull \<or> read mcpTools ''tools'' = JUndefined
           \<or> read mcpTools ''tools'' = JNull \<or> read mcpTools ''tools'' = JArr []"
  shows "fallback gt0 msgs mcpTools = Inr msgs"
  using has_tools_absent [OF assms] by (simp add: fallback_def)

lemma sendMessageWithMCPContext_hands_over:
  "sendMessageWithMCPContext svc msgs mcpTools sent =
     (case enhancedMessages (JSON_parse svc) (greater_0 svc) (fst (getCompanies svc sent))
             msgs mcpTools of
        Inl e \<Rightarrow> (Inl e, snd (getCompanies svc sent))
      | Inr enhanced \<Rightarrow> sendMessage svc enhanced (snd (getCompanies svc sent)))"
  by (simp add: sendMessageWithMCPContext_def case_prod_unfold)

lemma sendMessageWithMCPContext_request:
  assumes "getApiKey svc \<noteq> []"
    and "enhancedMessages (JSON_parse svc) (greater_0 svc) (fst (getCompanies svc sent))
           msgs mcpTools = Inr out"
  shows "\<exists>headers. snd (sendMessageWithMCPContext svc msgs mcpTools sent) =
           snd (getCompanies svc sent)
           @ [OpenAI_post openaiApiUrl headers
                \<lparr>model = ''gpt-3.5-turbo'', messages = out,
                 max_tokens = 1000, temperature = 0.7\<rparr>]"
  using assms by (simp add: sendMessageWithMCPContext_hands_over sendMessage_def Let_def)


lemma getCompanies_test_service:
  "getCompanies (test_service mcp reply) sent =
     (then_do mcp (sse_result parse_json ''MCP Error: ''),
      sent @ [MCP_post ''/api/mcp'' mcpHeaders
                \<lparr>jsonrpc = ''2.0'', id = 1700000000000, rpc_method = ''tools/call'',
                 params = JObj [(''name'', JStr ''getCompanies''), (''arguments'', JObj [])]\<rparr>])"
  by (cases mcp)
     (simp_all add: getCompanies_def callMCPTool_def callMCPMethod_def jsonRpcRequest_def
        or_empty_def test_service_def)






text \<open>
  Claim C3. Let \<^verbatim>\<open>getCompanies\<close> fail, with any error. If \<^verbatim>\<open>mcpTools.tools\<close> is a
  non-empty list of tool descriptors, then \<^verbatim>\<open>sendMessageWithMCPContext\<close> is
  \<^verbatim>\<open>sendMessage\<close> on the conversation that starts with a system message whose text
  is the introduction of the tools, then one line \<^verbatim>\<open>- name: description\<close> for each
  tool of the list, in order, with \<^verbatim>\<open>No description available\<close> in place of a
  description that is absent, then the instructions; it is followed by the input
  without its system messages. If no tool list was supplied or it is empty, it is
  \<^verbatim>\<open>sendMessage\<close> on the input conversation. In both cases the error of
  \<^verbatim>\<open>getCompanies\<close> is gone and the completion call is made, after the request of
  \<^verbatim>\<open>getCompanies\<close>.
\<close>

theorem getCompanies_failure_falls_back:
  assumes "fst (getCompanies svc sent) = Inl e"
  shows \<open>(\<forall>ts. read mcpTools ''tools'' = JArr ts \<and> ts \<noteq> [] \<and> (\<forall>t\<in>set ts. descriptor t) \<longrightarrow>
            sendMessageWithMCPContext svc msgs mcpTools sent =
              sendMessage svc
                (\<lparr>role = System,
                  content =
                 ''You are an AI assistant with access to the following MCP (Model Context Protocol) tools:\<newline>\<newline>''
                 @ join ''\<newline>''
                     (map (\<lambda>t. ''- '' @ to_string (read t ''name'') @ '': ''
                               @ (if truthy (read t ''description'')
                                  then to_string (read t ''description'')
                                  else ''No description available'')) ts)
                 @ ''\<newline>\<newline>When a user asks about topics that could be answered using these tools, explain what information you could provide if you had access to call these tools. For example, if asked about "AI companies", mention that you have access to tools that could provide that information.''\<rparr>
                 # filter (\<lambda>m. role m \<noteq> System) msgs)
                (snd (getCompanies svc sent)))
       \<and> ((mcpTools = JUndefined \<or> mcpTools = JNull \<or> read mcpTools ''tools'' = JUndefined
            \<or> read mcpTools ''tools'' = JNull \<or> read mcpTools ''tools'' = JArr []) \<longrightarrow>
            sendMessageWithMCPContext svc msgs mcpTools sent =
              sendMessage svc msgs (snd (getCompanies svc sent)))\<close>
proof -
  have f: "enhancedMessages (JSON_parse svc) (greater_0 svc) (fst (getCompanies svc sent))
             msgs mcpTools = fallback (greater_0 svc) msgs mcpTools"
    using assms by (intro enhancedMessages_failed [where e = e]) simp
  show ?thesis
  proof (intro conjI allI impI)
    fix ts
    assume "read mcpTools ''tools'' = JArr ts \<and> ts \<noteq> [] \<and> (\<forall>t\<in>set ts. descriptor t)"
    then have "fallback (greater_0 svc) msgs mcpTools =
           Inr (\<lparr>role = System,
                  content = toolsPrompt (join ''\<newline>'' (map tool_entry ts))\<rparr>
                # without_system msgs)"
      by (intro fallback_list) auto
    then have "sendMessageWithMCPContext svc msgs mcpTools sent =
              sendMessage svc
                (\<lparr>role = System,
                  content = toolsPrompt (join ''\<newline>'' (map tool_entry ts))\<rparr>
                 # filter (\<lambda>m. role m \<noteq> System) msgs)
                (snd (getCompanies svc sent))"
      by (simp add: sendMessageWithMCPContext_hands_over f without_system_def)
    then show \<open>sendMessageWithMCPContext svc msgs mcpTools sent =
              sendMessage svc
                (\<lparr>role = System,
                  content =
                 ''You are an AI assistant with access to the following MCP (Model Context Protocol) tools:\<newline>\<newline>''
                 @ join ''\<newline>''
                     (map (\<lambda>t. ''- '' @ to_string (read t ''name'') @ '': ''
                               @ (if truthy (read t ''description'')
                                  then to_string (read t ''description'')
                                  else ''No description available'')) ts)
                 @ ''\<newline>\<newline>When a user asks about topics that could be answered using these tools, explain what information you could provide if you had access to call these tools. For example, if asked about "AI companies", mention that you have access to tools that could provide that information.''\<rparr>
                 # filter (\<lambda>m. role m \<noteq> System) msgs)
                (snd (getCompanies svc sent))\<close>
      by (simp add: toolsPrompt_def tool_entry_fun)
  next
    assume "mcpTools = JUndefined \<or> mcpTools = JNull \<or> read mcpTools ''tools'' = JUndefined
            \<or> read mcpTools ''tools'' = JNull \<or> read mcpTools ''tools'' = JArr []"
    then have "fallback (greater_0 svc) msgs mcpTools = Inr msgs"
      by (rule fallback_absent)
    then show "sendMessageWithMCPContext svc msgs mcpTools sent =
              sendMessage svc msgs (snd (getCompanies svc sent))"
      by (simp add: sendMessageWithMCPContext_hands_over f)
  qed
qed

text \<open>
  The theorem at work: the call fails with status 503, two tools were listed before,
  the second without a description, and the input holds a system message of its own.
\<close>

theorem getCompanies_failure_falls_back_witness:
  \<open>fst (getCompanies (test_service (Inl (HttpErrorResponse 503)) ''hi'') [])
     = Inl (HttpErrorResponse 503)
   \<and> sendMessageWithMCPContext (test_service (Inl (HttpErrorResponse 503)) ''hi'')
        [\<lparr>role = System, content = ''old''\<rparr>, \<lparr>role = User, content = ''q''\<rparr>]
        (JObj [(''tools'',
                JArr [JObj [(''name'', JStr ''getCompanies''),
                            (''description'', JStr ''Get all companies'')],
                      JObj [(''name'', JStr ''diagnostic'')]])])
        []
     = (Inr ''hi'',
        [MCP_post ''/api/mcp'' mcpHeaders
           \<lparr>jsonrpc = ''2.0'', id = 1700000000000, rpc_method = ''tools/call'',
            params = JObj [(''name'', JStr ''getCompanies''), (''arguments'', JObj [])]\<rparr>,
         OpenAI_post openaiApiUrl
           [(''Content-Type'', ''application/json''),
            (''Accept'', ''application/json, text/event-stream''),
            (''Authorization'', ''Bearer sk-test'')]
           \<lparr>model = ''gpt-3.5-turbo'',
            messages =
              [\<lparr>role = System,
                content =
                  ''You are an AI assistant with access to the following MCP (Model Context Protocol) tools:\<newline>\<newline>- getCompanies: Get all companies\<newline>- diagnostic: No description available\<newline>\<newline>When a user asks about topics that could be answered using these tools, explain what information you could provide if you had access to call these tools. For example, if asked about "AI companies", mention that you have access to tools that could provide that information.''\<rparr>,
               \<lparr>role = User, content = ''q''\<rparr>],
            max_tokens = 1000, temperature = 0.7\<rparr>])\<close>
proof -
  let ?svc = "test_service (Inl (HttpErrorResponse 503)) ''hi''"
  let ?m = "[\<lparr>role = System, content = ''old''\<rparr>, \<lparr>role = User, content = ''q''\<rparr>]"
  let ?ts = "[JObj [(''name'', JStr ''getCompanies''),
                    (''description'', JStr ''Get all companies'')],
              JObj [(''name'', JStr ''diagnostic'')]]"
  let ?tools = "JObj [(''tools'', JArr ?ts)]"
  have a: "fst (getCompanies ?svc []) = Inl (HttpErrorResponse 503)"
    by (simp add: getCompanies_test_service)
  have h: "read ?tools ''tools'' = JArr ?ts \<and> ?ts \<noteq> [] \<and> (\<forall>t\<in>set ?ts. descriptor t)"
    by (simp add: descriptor_def)
  from getCompanies_failure_falls_back [OF a, of ?tools ?m] h
  have \<open>sendMessageWithMCPContext ?svc ?m ?tools [] =
              sendMessage ?svc
                (\<lparr>role = System,
                  content =
                 ''You are an AI assistant with access to the following MCP (Model Context Protocol) tools:\<newline>\<newline>''
                 @ join ''\<newline>''
                     (map (\<lambda>t. ''- '' @ to_string (read t ''name'') @ '': ''
                               @ (if truthy (read t ''description'')
                                  then to_string (read t ''description'')
                                  else ''No description available'')) ?ts)
                 @ ''\<newline>\<newline>When a user asks about topics that could be answered using these tools, explain what information you could provide if you had access to call these tools. For example, if asked about "AI companies", mention that you have access to tools that could provide that information.''\<rparr>
                 # filter (\<lambda>m. role m \<noteq> System) ?m)
                (snd (getCompanies ?svc []))\<close>
    by blast
  then show ?thesis
    using a by (simp add: getCompanies_test_service sendMessage_test_service)
qed




end
